theory Spec2Isabelle
  imports Main
begin

section \<open>Data model of the forward plugin (src/src/index.ts, second revision)\<close>

text \<open>
  The embedding follows the later revision of \<^verbatim>\<open>apply\<close> (the one with
  \<^verbatim>\<open>parseTarget\<close>, \<^verbatim>\<open>ForwardTarget\<close> and \<^verbatim>\<open>RelayEntry\<close>).
  JavaScript strings are \<^typ>\<open>string\<close> (lengths and prefixes are taken in one and the
  same unit throughout); \<^verbatim>\<open>undefined\<close> is \<^term>\<open>None\<close>; a thrown exception is a value
  of type \<open>error\<close>.
\<close>

datatype error = Error string

text \<open>
  \<^verbatim>\<open>session.channelId\<close> is a string on most platforms and an object with a nested
  \<^verbatim>\<open>id\<close> on some. \<open>ChanObj i\<close> is such an object whose \<^verbatim>\<open>id\<close> property is \<open>i\<close>
  (the empty string when the property is missing or falsy). \<open>ChanUndefined\<close> is
  \<^verbatim>\<open>undefined\<close>: the channel id that \<^verbatim>\<open>sendRelay\<close> reads from a value that has no
  such field.
\<close>

datatype chan_id = ChanStr string | ChanObj string | ChanUndefined

fun truthy :: "chan_id \<Rightarrow> bool" where
  "truthy (ChanStr c) = (c \<noteq> [])"
| "truthy (ChanObj i) = True"
| "truthy ChanUndefined = False"

text \<open>What a template literal \<^verbatim>\<open>${...}\<close> renders for a channel id.\<close>

fun chanText :: "chan_id \<Rightarrow> string" where
  "chanText (ChanStr c) = c"
| "chanText (ChanObj i) = ''[object Object]''"
| "chanText ChanUndefined = ''undefined''"

record ParsedTarget =
  platform :: string
  channelId :: chan_id

record ForwardTarget = ParsedTarget +
  selfId :: string
  guildId :: "string option"

type_synonym RelayEntry = ForwardTarget

record Rule =
  rule_source :: string
  rule_target :: string
  rule_selfId :: string
  rule_guildId :: "string option"

datatype mode = Database | ConfigFile

record Config =
  mode :: "mode option"
  rules :: "Rule list option"
  replyTimeout :: "nat option"

record Bot =
  bot_platform :: string
  bot_selfId :: string

text \<open>
  Message content. The element library (\<^verbatim>\<open>segment\<close>) is not part of the repository;
  content is represented by the element tree that the library parses it into.
\<close>

datatype element = Text string | Element string "string \<rightharpoonup> string" "element list"

record ChannelRow =
  forward :: "ForwardTarget list option"

record Quote =
  quote_id :: "string option"

record Session =
  sess_platform :: string
  sess_channelId :: chan_id
  sess_cid :: string
  sess_selfId :: string
  sess_guildId :: "string option"
  sess_author_name :: "string option"
  sess_content :: "element list"
  sess_quote :: "Quote option"
  sess_channel :: "ChannelRow option"

record Sent =
  sent_bot :: Bot
  sent_channel :: chan_id
  sent_content :: "element list"
  sent_guild :: "string option"

datatype log_entry =
    BotNotFound string string
  | Caught error
  | FetchFailed error
  | DebugTargets string "ForwardTarget list"

text \<open>
  The collaborators the plugin calls: the connected bots, each bot's \<^verbatim>\<open>sendMessage\<close>,
  the member directory of the session's bot, and the state of the backing store
  (\<open>db_error = Some e\<close>: every store access raises \<open>e\<close>). The directory that
  \<^verbatim>\<open>getGuildMemberMap\<close> returns is given by its read: \<open>dict i = Some n\<close> when
  \<^verbatim>\<open>dict[i]\<close> is defined and \<^verbatim>\<open>'@' + dict[i]\<close> appends \<open>n\<close>, \<open>dict i = None\<close> when
  \<^verbatim>\<open>dict[i]\<close> is \<^verbatim>\<open>undefined\<close>.
\<close>

record Env =
  bots :: "Bot list"
  sendMessage :: "Bot \<Rightarrow> chan_id \<Rightarrow> element list \<Rightarrow> string option \<Rightarrow> error + string list"
  getGuildMemberMap :: "string \<Rightarrow> error + (string \<rightharpoonup> string)"
  db_error :: "error option"

text \<open>
  The mutable state: the logical clock (milliseconds), the correlation object
  \<^verbatim>\<open>relayMap\<close> with the pending \<^verbatim>\<open>setTimeout\<close> callbacks (due time and key to delete),
  the channel table of the store, and what has been observed so far (messages sent, log
  lines, store queries issued, calls of the continuation \<^verbatim>\<open>next\<close>).

  \<^verbatim>\<open>relayMap\<close> is a plain object created by \<^verbatim>\<open>{}\<close>: \<open>relayMap\<close> holds its own
  properties and \<open>relayProto\<close> its prototype, \<open>None\<close> for the initial
  \<^verbatim>\<open>Object.prototype\<close> and \<open>Some e\<close> once an assignment to the key \<^verbatim>\<open>__proto__\<close> has
  made the entry \<open>e\<close> the prototype (whose own prototype is \<^verbatim>\<open>Object.prototype\<close>).
\<close>

record World =
  clock :: nat
  relayMap :: "string \<rightharpoonup> RelayEntry"
  relayProto :: "RelayEntry option"
  timers :: "(nat \<times> string) list"
  store :: "(string \<times> chan_id) \<rightharpoonup> ChannelRow"
  outbox :: "Sent list"
  logs :: "log_entry list"
  db_reads :: nat
  next_calls :: nat

section \<open>Address codec\<close>

definition startsWith :: "string \<Rightarrow> string \<Rightarrow> bool" where
  "startsWith s p = (take (length p) s = p)"

fun indexOf :: "string \<Rightarrow> char \<Rightarrow> int" where
  "indexOf [] c = - 1"
| "indexOf (x # xs) c =
     (if x = c then 0 else (let i = indexOf xs c in if i < 0 then - 1 else i + 1))"

text \<open>\<^verbatim>\<open>[...new Set(xs)]\<close>: the distinct values in order of first occurrence.\<close>

definition uniq :: "'a list \<Rightarrow> 'a list" where
  "uniq xs = fold (\<lambda>x seen. if x \<in> set seen then seen else seen @ [x]) xs []"

text \<open>
  \<^verbatim>\<open>[...new Set(ctx.bots.map(b => b.platform))].sort((a, b) => b.length - a.length)\<close>:
  a stable sort by descending length.
\<close>

definition platformsOf :: "Bot list \<Rightarrow> string list" where
  "platformsOf bs = sort_key (\<lambda>p. - int (length p)) (uniq (map bot_platform bs))"

definition parseTarget :: "Bot list \<Rightarrow> string \<Rightarrow> ParsedTarget option" where
  "parseTarget bs target =
     (case find (\<lambda>p. p \<noteq> [] \<and> startsWith target (p @ '':'')) (platformsOf bs) of
        Some p \<Rightarrow> Some \<lparr>platform = p, channelId = ChanStr (drop (length p + 1) target)\<rparr>
      | None \<Rightarrow>
          (let idx = indexOf target CHR '':'' in
           if idx < 0 then None
           else Some \<lparr>platform = take (nat idx) target,
                      channelId = ChanStr (drop (nat (idx + 1)) target)\<rparr>))"

definition formatTarget :: "ForwardTarget \<Rightarrow> string" where
  "formatTarget t = platform t @ '':'' @ chanText (channelId t)"

text \<open>\<^verbatim>\<open>{ ...parsed, selfId, guildId }\<close>\<close>

definition withBot :: "ParsedTarget \<Rightarrow> string \<Rightarrow> string option \<Rightarrow> ForwardTarget" where
  "withBot parsed sid gid =
     \<lparr>platform = platform parsed, channelId = channelId parsed, selfId = sid, guildId = gid\<rparr>"

section \<open>Target resolver\<close>

definition getChannelId :: "Session \<Rightarrow> chan_id" where
  "getChannelId s =
     (case sess_channelId s of
        ChanObj i \<Rightarrow> if i \<noteq> [] then ChanStr i else ChanObj i
      | ChanStr c \<Rightarrow> ChanStr c
      | ChanUndefined \<Rightarrow> ChanUndefined)"

text \<open>
  \<^verbatim>\<open>ctx.database.get('channel', {platform, id}, ['forward'])\<close> and
  \<^verbatim>\<open>ctx.database.upsert('channel', [{platform, id, forward}], ['platform', 'id'])\<close>
  against the channel table of the world; both raise when the store is failing.
\<close>

definition db_get :: "Env \<Rightarrow> World \<Rightarrow> string \<Rightarrow> chan_id \<Rightarrow> error + ChannelRow list" where
  "db_get env w p c =
     (case db_error env of
        Some err \<Rightarrow> Inl err
      | None \<Rightarrow> Inr (case store w (p, c) of Some row \<Rightarrow> [row] | None \<Rightarrow> []))"

definition db_upsert ::
  "Env \<Rightarrow> string \<Rightarrow> chan_id \<Rightarrow> ForwardTarget list \<Rightarrow> World \<Rightarrow> error + World" where
  "db_upsert env p c targets w =
     (case db_error env of
        Some err \<Rightarrow> Inl err
      | None \<Rightarrow> Inr (w\<lparr>store := (store w)((p, c) \<mapsto> \<lparr>forward = Some targets\<rparr>)\<rparr>))"

definition getTargets :: "Env \<Rightarrow> Config \<Rightarrow> Session \<Rightarrow> World \<Rightarrow> ForwardTarget list \<times> World" where
  "getTargets env cfg s w =
     (if mode cfg = Some Database then
        (case (case sess_channel s of Some ch \<Rightarrow> forward ch | None \<Rightarrow> None) of
           Some fw \<Rightarrow> (fw, w)
         | None \<Rightarrow>
             (let channelId = getChannelId s in
              if truthy channelId then
                (let w' = w\<lparr>db_reads := Suc (db_reads w)\<rparr> in
                 case db_get env w (sess_platform s) channelId of
                   Inl err \<Rightarrow> ([], w'\<lparr>logs := logs w' @ [FetchFailed err]\<rparr>)
                 | Inr [] \<Rightarrow> ([], w')
                 | Inr (channel # _) \<Rightarrow>
                     (case forward channel of Some fw \<Rightarrow> (fw, w') | None \<Rightarrow> ([], w')))
              else ([], w)))
      else
        (List.map_filter
           (\<lambda>rule. case parseTarget (bots env) (rule_target rule) of
                      None \<Rightarrow> None
                    | Some parsed \<Rightarrow> Some (withBot parsed (rule_selfId rule) (rule_guildId rule)))
           (filter (\<lambda>rule. rule_source rule = sess_cid s)
              (case rules cfg of Some rs \<Rightarrow> rs | None \<Rightarrow> [])),
         w))"

section \<open>Relay correlation store\<close>

definition hour :: nat where
  "hour = 3600000"

text \<open>\<^verbatim>\<open>config.replyTimeout || Time.hour\<close>\<close>

definition ttl :: "Config \<Rightarrow> nat" where
  "ttl cfg = (case replyTimeout cfg of Some n \<Rightarrow> if n \<noteq> 0 then n else hour | None \<Rightarrow> hour)"

text \<open>
  What the read \<^verbatim>\<open>relayMap[key]\<close> can yield: \<^verbatim>\<open>undefined\<close>, an entry, a string (a
  field of the entry that has become the prototype), or some other object (\<open>ObjectV\<close>:
  \<^verbatim>\<open>Object.prototype\<close> itself, one of its methods, a structured channel id). The last two
  have none of the four fields of an entry.
\<close>

datatype jsval = Undefined | EntryV RelayEntry | StringV string | ObjectV

fun truthyValue :: "jsval \<Rightarrow> bool" where
  "truthyValue Undefined = False"
| "truthyValue (EntryV e) = True"
| "truthyValue (StringV s) = (s \<noteq> [])"
| "truthyValue ObjectV = True"

text \<open>
  The data properties of \<^verbatim>\<open>Object.prototype\<close>, all of them functions. Its accessor
  \<^verbatim>\<open>__proto__\<close> is treated apart.
\<close>

definition objectPrototypeKeys :: "string list" where
  "objectPrototypeKeys =
     [''constructor'', ''__defineGetter__'', ''__defineSetter__'', ''hasOwnProperty'',
      ''__lookupGetter__'', ''__lookupSetter__'', ''isPrototypeOf'', ''propertyIsEnumerable'',
      ''toString'', ''valueOf'', ''toLocaleString'']"

text \<open>The own properties of an entry, as they read when the entry is the prototype.\<close>

definition entryKeys :: "string list" where
  "entryKeys = [''platform'', ''channelId'', ''selfId'', ''guildId'']"

definition entryField :: "RelayEntry \<Rightarrow> string \<Rightarrow> jsval option" where
  "entryField e key =
     (if key = ''platform'' then Some (StringV (platform e))
      else if key = ''channelId'' then
        Some (case channelId e of
                ChanStr c \<Rightarrow> StringV c | ChanObj i \<Rightarrow> ObjectV | ChanUndefined \<Rightarrow> Undefined)
      else if key = ''selfId'' then Some (StringV (selfId e))
      else if key = ''guildId'' then
        Some (case guildId e of Some g \<Rightarrow> StringV g | None \<Rightarrow> Undefined)
      else None)"

text \<open>
  The read of a key that is not an own property, along the prototype chain: the getter
  of \<^verbatim>\<open>__proto__\<close> yields the prototype; the prototype entry, if there is one, is asked
  first, then \<^verbatim>\<open>Object.prototype\<close>.
\<close>

definition inheritedGet :: "World \<Rightarrow> string \<Rightarrow> jsval" where
  "inheritedGet w key =
     (if key = ''__proto__'' then
        (case relayProto w of Some e \<Rightarrow> EntryV e | None \<Rightarrow> ObjectV)
      else
        (case (case relayProto w of Some e \<Rightarrow> entryField e key | None \<Rightarrow> None) of
           Some v \<Rightarrow> v
         | None \<Rightarrow> if key \<in> set objectPrototypeKeys then ObjectV else Undefined))"

text \<open>
  \<^verbatim>\<open>relayMap[key]\<close>, \<^verbatim>\<open>relayMap[key] = entry\<close> and \<^verbatim>\<open>delete relayMap[key]\<close>. An
  assignment to \<^verbatim>\<open>__proto__\<close> goes to the inherited setter and replaces the prototype,
  so that key never becomes an own property; every other inherited property is a
  writable data property, and assigning to it creates an own property. \<^verbatim>\<open>delete\<close>
  removes an own property and nothing else.
\<close>

definition dictGet :: "World \<Rightarrow> string \<Rightarrow> jsval" where
  "dictGet w key =
     (case (if key = ''__proto__'' then None else relayMap w key) of
        Some e \<Rightarrow> EntryV e
      | None \<Rightarrow> inheritedGet w key)"

definition dictSet :: "string \<Rightarrow> RelayEntry \<Rightarrow> World \<Rightarrow> World" where
  "dictSet key entry w =
     (if key = ''__proto__'' then w\<lparr>relayProto := Some entry\<rparr>
      else w\<lparr>relayMap := (relayMap w)(key \<mapsto> entry)\<rparr>)"

definition dictDelete :: "string \<Rightarrow> (string \<rightharpoonup> RelayEntry) \<Rightarrow> (string \<rightharpoonup> RelayEntry)" where
  "dictDelete key own = own(key := None)"

text \<open>
  The delay that the host timer behind \<^verbatim>\<open>ctx.setTimeout\<close> applies: a delay below 1 or
  above 2147483647 milliseconds is replaced by 1.
\<close>

definition hostDelay :: "nat \<Rightarrow> nat" where
  "hostDelay d = (if d < 1 \<or> 2147483647 < d then 1 else d)"

text \<open>
  \<^verbatim>\<open>relayMap[id] = entry; ctx.setTimeout(() => delete relayMap[id], ttl)\<close>:
  the entry is assigned and a callback deleting the key is queued with its due time.
\<close>

definition register :: "Config \<Rightarrow> RelayEntry \<Rightarrow> string \<Rightarrow> World \<Rightarrow> World" where
  "register cfg entry key w =
     (dictSet key entry w)\<lparr>timers := timers w @ [(clock w + hostDelay (ttl cfg), key)]\<rparr>"

text \<open>
  The clock moves to \<open>t\<close> (never backwards) and every queued callback that is due by
  then runs: it deletes its key, whatever entry the key holds at that moment.
\<close>

definition advance :: "nat \<Rightarrow> World \<Rightarrow> World" where
  "advance t w =
     w\<lparr>clock := max (clock w) t,
       relayMap := fold (\<lambda>(due, key) own. if due \<le> t then dictDelete key own else own)
                     (timers w) (relayMap w),
       timers := filter (\<lambda>(due, key). \<not> due \<le> t) (timers w)\<rparr>"

text \<open>\<^verbatim>\<open>quote.id ? relayMap[quote.id] : undefined\<close>, with \<^verbatim>\<open>quote = {}\<close> by default.\<close>

definition relayGet :: "World \<Rightarrow> Quote option \<Rightarrow> jsval" where
  "relayGet w quote =
     (case (case quote of Some q \<Rightarrow> quote_id q | None \<Rightarrow> None) of
        Some i \<Rightarrow> if i \<noteq> [] then dictGet w i else Undefined
      | None \<Rightarrow> Undefined)"

text \<open>The life of the store: time passing and registrations.\<close>

datatype store_op = Elapse nat | Put string RelayEntry

fun store_step :: "Config \<Rightarrow> store_op \<Rightarrow> World \<Rightarrow> World" where
  "store_step cfg (Elapse d) w = advance (clock w + d) w"
| "store_step cfg (Put key entry) w = register cfg entry key w"

definition store_run :: "Config \<Rightarrow> store_op list \<Rightarrow> World \<Rightarrow> World" where
  "store_run cfg ops w = fold (store_step cfg) ops w"

fun puts_key :: "string \<Rightarrow> store_op \<Rightarrow> bool" where
  "puts_key k (Elapse d) = False"
| "puts_key k (Put key entry) = (key = k)"

section \<open>Dispatch pipeline\<close>

text \<open>\<^verbatim>\<open>segment.select(content, 'at')\<close>: every element of the given type, at any depth.\<close>

fun selectElements :: "string \<Rightarrow> element \<Rightarrow> element list" where
  "selectElements ty (Text t) = []"
| "selectElements ty (Element t attrs children) =
     (if t = ty then [Element t attrs children] else [])
     @ concat (map (selectElements ty) children)"

text \<open>
  \<^verbatim>\<open>segment.transform(content, { at(attrs) { if (!attrs.id) return true;
  return '@' + dict[attrs.id] } })\<close>: a rule that returns \<^verbatim>\<open>true\<close> keeps the element
  (its children transformed), a rule that returns a string replaces the element by that
  text; elements of other types are kept. A missing key of \<^verbatim>\<open>dict\<close> reads as
  \<^verbatim>\<open>undefined\<close>, which the string concatenation renders as the word.
\<close>

fun transformAt :: "(string \<rightharpoonup> string) \<Rightarrow> element \<Rightarrow> element" where
  "transformAt dict (Text t) = Text t"
| "transformAt dict (Element ty attrs children) =
     (if ty = ''at'' then
        (case attrs ''id'' of
           None \<Rightarrow> Element ty attrs (map (transformAt dict) children)
         | Some i \<Rightarrow>
             if i = [] then Element ty attrs (map (transformAt dict) children)
             else Text (''@'' @ (case dict i of Some n \<Rightarrow> n | None \<Rightarrow> ''undefined'')))
      else Element ty attrs (map (transformAt dict) children))"

definition rewriteMentions :: "Env \<Rightarrow> Session \<Rightarrow> error + element list" where
  "rewriteMentions env s =
     (case sess_guildId s of
        None \<Rightarrow> Inr (sess_content s)
      | Some g \<Rightarrow>
          if concat (map (selectElements ''at'') (sess_content s)) \<noteq> [] \<and> g \<noteq> [] then
            (case getGuildMemberMap env g of
               Inl err \<Rightarrow> Inl err
             | Inr dict \<Rightarrow> Inr (map (transformAt dict) (sess_content s)))
          else Inr (sess_content s))"

text \<open>\<^verbatim>\<open>`${author.name}: ${content}`\<close>\<close>

definition withAuthor :: "Session \<Rightarrow> element list \<Rightarrow> element list" where
  "withAuthor s content =
     Text ((case sess_author_name s of Some n \<Rightarrow> n | None \<Rightarrow> ''undefined'') @ '': '') # content"

text \<open>\<^verbatim>\<open>ctx.bots[`${platform}:${selfId}`]\<close>\<close>

definition botFor :: "Bot list \<Rightarrow> string \<Rightarrow> string \<Rightarrow> Bot option" where
  "botFor bs p sid = find (\<lambda>b. bot_platform b @ '':'' @ bot_selfId b = p @ '':'' @ sid) bs"

text \<open>The entry that \<^verbatim>\<open>sendRelay\<close> registers for every id of a successful send.\<close>

definition originOf :: "Session \<Rightarrow> RelayEntry" where
  "originOf s =
     \<lparr>platform = sess_platform s, channelId = getChannelId s,
      selfId = sess_selfId s, guildId = sess_guildId s\<rparr>"

definition sendRelay :: "Env \<Rightarrow> Config \<Rightarrow> Session \<Rightarrow> RelayEntry \<Rightarrow> World \<Rightarrow> World" where
  "sendRelay env cfg s entry w =
     (if sess_content s = [] then w
      else
        (case botFor (bots env) (platform entry) (selfId entry) of
           None \<Rightarrow> w\<lparr>logs := logs w @ [BotNotFound (platform entry) (selfId entry)]\<rparr>
         | Some b \<Rightarrow>
             (case rewriteMentions env s of
                Inl err \<Rightarrow> w\<lparr>logs := logs w @ [Caught err]\<rparr>
              | Inr rewritten \<Rightarrow>
                  (let content = withAuthor s rewritten in
                   case sendMessage env b (channelId entry) content (guildId entry) of
                     Inl err \<Rightarrow> w\<lparr>logs := logs w @ [Caught err]\<rparr>
                   | Inr ids \<Rightarrow>
                       fold (register cfg (originOf s)) ids
                         (w\<lparr>outbox := outbox w @
                            [\<lparr>sent_bot = b, sent_channel = channelId entry,
                              sent_content = content, sent_guild = guildId entry\<rparr>]\<rparr>)))))"

section \<open>Reply interceptor and fan-out\<close>

text \<open>
  The relay tasks of one message, in the order in which the loop starts them. The tasks
  are promises; the model runs them one after the other.
\<close>

definition fanout :: "Env \<Rightarrow> Config \<Rightarrow> Session \<Rightarrow> ForwardTarget list \<Rightarrow> World \<Rightarrow> World" where
  "fanout env cfg s targets w = fold (sendRelay env cfg s) targets w"

text \<open>
  \<^verbatim>\<open>const { platform, channelId, selfId, guildId } = entry\<close> when \<^verbatim>\<open>sendRelay\<close> is
  handed the value that the lookup found. An entry gives its fields. Any other truthy
  value gives \<^verbatim>\<open>undefined\<close> four times; \<^verbatim>\<open>sendRelay\<close> uses the platform and the bot
  identity only inside \<^verbatim>\<open>`${platform}:${selfId}`\<close> and the log format \<^verbatim>\<open>%s:%s\<close>, which
  both render \<^verbatim>\<open>undefined\<close> as the word.
\<close>

definition undefinedEntry :: RelayEntry where
  "undefinedEntry =
     \<lparr>platform = ''undefined'', channelId = ChanUndefined, selfId = ''undefined'',
      guildId = None\<rparr>"

fun asEntry :: "jsval \<Rightarrow> RelayEntry" where
  "asEntry (EntryV e) = e"
| "asEntry v = undefinedEntry"

text \<open>
  The middleware. \<open>nxt\<close> is the outcome of the continuation \<^verbatim>\<open>next()\<close> (a value or a
  rejection); the result \<open>Inr None\<close> is \<^verbatim>\<open>undefined\<close>, what \<^verbatim>\<open>sendRelay\<close> resolves to.
\<close>

definition middleware ::
  "Env \<Rightarrow> Config \<Rightarrow> Session \<Rightarrow> error + 'r \<Rightarrow> World \<Rightarrow> (error + 'r option) \<times> World" where
  "middleware env cfg s nxt w =
     (let data = relayGet w (sess_quote s) in
      if truthyValue data then (Inr None, sendRelay env cfg s (asEntry data) w)
      else
        (case getTargets env cfg s w of
           (targets, w1) \<Rightarrow>
             (let w2 = w1\<lparr>logs := logs w1 @ [DebugTargets (sess_cid s) targets]\<rparr>;
                  w3 = fanout env cfg s targets w2;
                  w4 = w3\<lparr>next_calls := Suc (next_calls w3)\<rparr>
              in (case nxt of Inl err \<Rightarrow> Inl err | Inr result \<Rightarrow> Inr (Some result), w4))))"

section \<open>The remove command\<close>

datatype reply = Updated string | Unchanged string

fun findIndex :: "('a \<Rightarrow> bool) \<Rightarrow> 'a list \<Rightarrow> int" where
  "findIndex P [] = - 1"
| "findIndex P (x # xs) =
     (if P x then 0 else (let i = findIndex P xs in if i < 0 then - 1 else i + 1))"

definition forward_remove ::
  "Env \<Rightarrow> Config \<Rightarrow> Session \<Rightarrow> string \<Rightarrow> World \<Rightarrow> (error + reply) \<times> World" where
  "forward_remove env cfg s arg w =
     (case parseTarget (bots env) arg of
        None \<Rightarrow> (Inr (Unchanged arg), w)
      | Some parsed \<Rightarrow>
          (case getTargets env cfg s w of
             (targets, w1) \<Rightarrow>
               (let index = findIndex (\<lambda>t. platform t = platform parsed
                                           \<and> channelId t = channelId parsed) targets
                in if 0 \<le> index then
                     (let targets' = take (nat index) targets @ drop (nat index + 1) targets;
                          channelId = getChannelId s
                      in if truthy channelId then
                           (case db_upsert env (sess_platform s) channelId targets' w1 of
                              Inl err \<Rightarrow> (Inl err, w1)
                            | Inr w2 \<Rightarrow> (Inr (Updated arg), w2))
                         else (Inr (Updated arg), w1))
                   else (Inr (Unchanged arg), w1))))"

section \<open>What one relay does, seen from outside\<close>

text \<open>
  Two readings of \<open>sendRelay\<close> used to state its properties: the message a relay
  delivers, when it delivers one, and the log line it leaves, when it does not (the bot
  is not connected, the member directory raises, or the send raises). Both are proved
  below to be what \<open>sendRelay\<close> adds to the outbox and to the log.
\<close>

definition relayMessage :: "Env \<Rightarrow> Session \<Rightarrow> RelayEntry \<Rightarrow> Sent option" where
  "relayMessage env s entry =
     (if sess_content s = [] then None
      else
        (case botFor (bots env) (platform entry) (selfId entry) of
           None \<Rightarrow> None
         | Some b \<Rightarrow>
             (case rewriteMentions env s of
                Inl err \<Rightarrow> None
              | Inr rewritten \<Rightarrow>
                  (case sendMessage env b (channelId entry) (withAuthor s rewritten)
                          (guildId entry) of
                     Inl err \<Rightarrow> None
                   | Inr ids \<Rightarrow>
                       Some \<lparr>sent_bot = b, sent_channel = channelId entry,
                             sent_content = withAuthor s rewritten,
                             sent_guild = guildId entry\<rparr>))))"

definition relayFailure :: "Env \<Rightarrow> Session \<Rightarrow> RelayEntry \<Rightarrow> log_entry option" where
  "relayFailure env s entry =
     (if sess_content s = [] then None
      else
        (case botFor (bots env) (platform entry) (selfId entry) of
           None \<Rightarrow> Some (BotNotFound (platform entry) (selfId entry))
         | Some b \<Rightarrow>
             (case rewriteMentions env s of
                Inl err \<Rightarrow> Some (Caught err)
              | Inr rewritten \<Rightarrow>
                  (case sendMessage env b (channelId entry) (withAuthor s rewritten)
                          (guildId entry) of
                     Inl err \<Rightarrow> Some (Caught err)
                   | Inr ids \<Rightarrow> None))))"

section \<open>The state of one registration\<close>

text \<open>
  The key was registered with the entry at time \<open>t0\<close> with time to live \<open>T\<close>: until
  \<open>t0 + T\<close> the key holds the entry and its only pending callback is the one due at
  \<open>t0 + T\<close>; from then on the key is absent and no callback for it is pending.
\<close>

definition tracked :: "nat \<Rightarrow> nat \<Rightarrow> string \<Rightarrow> RelayEntry \<Rightarrow> World \<Rightarrow> bool" where
  "tracked t0 T key entry w =
     (t0 \<le> clock w \<and>
      (if clock w < t0 + T
       then relayMap w key = Some entry \<and> (t0 + T, key) \<in> set (timers w)
            \<and> (\<forall>(due, k) \<in> set (timers w). k = key \<longrightarrow> due = t0 + T)
       else relayMap w key = None \<and> (\<forall>(due, k) \<in> set (timers w). k \<noteq> key)))"

section \<open>Concrete scenarios\<close>

text \<open>
  Bots on onebot and discord. A send to channel 666 raises; any other send returns one
  message id made from the channel. Guild G1 has the member 42, named Alice.
\<close>

definition demoBots :: "Bot list" where
  "demoBots =
     [\<lparr>bot_platform = ''onebot'', bot_selfId = ''B0''\<rparr>,
      \<lparr>bot_platform = ''discord'', bot_selfId = ''B1''\<rparr>]"

definition demoEnv :: Env where
  "demoEnv =
     \<lparr>bots = demoBots,
      sendMessage = (\<lambda>b c m g. if c = ChanStr ''666'' then Inl (Error ''send failed'')
                                else Inr [''M'' @ chanText c]),
      getGuildMemberMap = (\<lambda>g. if g = ''G1'' then Inr [''42'' \<mapsto> ''Alice'']
                                else Inl (Error ''no directory'')),
      db_error = None\<rparr>"

definition demoSession :: Session where
  "demoSession =
     \<lparr>sess_platform = ''onebot'', sess_channelId = ChanStr ''100'', sess_cid = ''onebot:100'',
      sess_selfId = ''B0'', sess_guildId = Some ''G1'', sess_author_name = Some ''bob'',
      sess_content = [Text ''hi''], sess_quote = None, sess_channel = None\<rparr>"

definition world0 :: World where
  "world0 =
     \<lparr>clock = 0, relayMap = Map.empty, relayProto = None, timers = [], store = Map.empty, outbox = [],
      logs = [], db_reads = 0, next_calls = 0\<rparr>"

definition dbConfig :: Config where
  "dbConfig = \<lparr>mode = Some Database, rules = None, replyTimeout = Some 1000\<rparr>"

definition target :: "string \<Rightarrow> string \<Rightarrow> string \<Rightarrow> ForwardTarget" where
  "target p c sid = \<lparr>platform = p, channelId = ChanStr c, selfId = sid, guildId = None\<rparr>"

text \<open>
  The static rule table of the scenarios: onebot:100 is forwarded to discord:200, and
  discord:200 to onebot:300.
\<close>

definition fileConfig :: Config where
  "fileConfig =
     \<lparr>mode = Some ConfigFile,
      rules = Some [\<lparr>rule_source = ''onebot:100'', rule_target = ''discord:200'',
                      rule_selfId = ''B1'', rule_guildId = None\<rparr>,
                    \<lparr>rule_source = ''discord:200'', rule_target = ''onebot:300'',
                      rule_selfId = ''B0'', rule_guildId = None\<rparr>],
      replyTimeout = Some 1000\<rparr>"

definition zeroConfig :: Config where
  "zeroConfig = dbConfig\<lparr>replyTimeout := Some 0\<rparr>"

text \<open>A reply timeout of thirty days.\<close>

definition monthConfig :: Config where
  "monthConfig = dbConfig\<lparr>replyTimeout := Some 2592000000\<rparr>"

text \<open>The origin of \<open>demoSession\<close>, and the world after its message has been forwarded.\<close>

definition origin100 :: RelayEntry where
  "origin100 =
     \<lparr>platform = ''onebot'', channelId = ChanStr ''100'', selfId = ''B0'', guildId = Some ''G1''\<rparr>"

definition relayedWorld :: World where
  "relayedWorld = snd (middleware demoEnv fileConfig demoSession (Inr (0::nat)) world0)"

text \<open>A message in discord:200 that quotes the forwarded copy.\<close>

definition replySession :: Session where
  "replySession =
     \<lparr>sess_platform = ''discord'', sess_channelId = ChanStr ''200'', sess_cid = ''discord:200'',
      sess_selfId = ''B1'', sess_guildId = None, sess_author_name = Some ''carol'',
      sess_content = [Text ''hello''], sess_quote = Some \<lparr>quote_id = Some ''M200''\<rparr>,
      sess_channel = None\<rparr>"

text \<open>The same exchange with an adapter whose send returns the empty string as message id.\<close>

definition emptyIdEnv :: Env where
  "emptyIdEnv = demoEnv\<lparr>sendMessage := (\<lambda>b c m g. Inr [[]])\<rparr>"

definition emptyIdWorld :: World where
  "emptyIdWorld = snd (middleware emptyIdEnv fileConfig demoSession (Inr (0::nat)) world0)"

definition replyEmpty :: Session where
  "replyEmpty = replySession\<lparr>sess_quote := Some \<lparr>quote_id = Some []\<rparr>\<rparr>"

text \<open>A message in discord:200 that quotes the message id \<open>constructor\<close>.\<close>

definition replyConstructor :: Session where
  "replyConstructor = replySession\<lparr>sess_quote := Some \<lparr>quote_id = Some ''constructor''\<rparr>\<rparr>"

text \<open>A store that raises on every access.\<close>

definition brokenStoreEnv :: Env where
  "brokenStoreEnv = demoEnv\<lparr>db_error := Some (Error ''EIO'')\<rparr>"

text \<open>A message that mentions the member 42, the unknown id 999, and everyone.\<close>

definition mentionSession :: Session where
  "mentionSession =
     demoSession\<lparr>sess_content :=
       [Text ''hey '', Element ''at'' [''id'' \<mapsto> ''42''] [], Element ''at'' [''id'' \<mapsto> ''999''] [],
        Element ''at'' [''type'' \<mapsto> ''all''] []]\<rparr>"

text \<open>Two connected platforms, one name extending the other.\<close>

definition sandboxBots :: "Bot list" where
  "sandboxBots =
     [\<lparr>bot_platform = ''sandbox'', bot_selfId = ''S1''\<rparr>,
      \<lparr>bot_platform = ''sandbox:ab'', bot_selfId = ''S2''\<rparr>]"

section \<open>Properties of the address codec\<close>

lemma set_fold_uniq:
  "set (fold (\<lambda>x seen. if x \<in> set seen then seen else seen @ [x]) xs acc) = set acc \<union> set xs"
  by (induction xs arbitrary: acc) auto

lemma set_uniq: "set (uniq xs) = set xs"
  by (simp add: uniq_def set_fold_uniq)

lemma set_platformsOf: "set (platformsOf bs) = bot_platform ` set bs"
  by (simp add: platformsOf_def set_uniq)

lemma sorted_platformsOf: "sorted (map (\<lambda>p. - int (length p)) (platformsOf bs))"
  by (simp add: platformsOf_def)

lemma indexOf_ge: "- 1 \<le> indexOf s c"
  by (induction s) (auto simp: Let_def)

lemma indexOf_neg_iff: "indexOf s c < 0 \<longleftrightarrow> c \<notin> set s"
  using indexOf_ge by (induction s) (auto simp: Let_def)

lemma indexOf_split:
  "0 \<le> indexOf s c \<Longrightarrow> take (nat (indexOf s c)) s @ c # drop (nat (indexOf s c + 1)) s = s"
proof (induction s)
  case Nil
  then show ?case by simp
next
  case (Cons x xs)
  show ?case
  proof (cases "x = c")
    case True
    then show ?thesis by simp
  next
    case False
    with Cons.prems have ge: "0 \<le> indexOf xs c"
      by (auto simp: Let_def split: if_splits)
    have step: "indexOf (x # xs) c = indexOf xs c + 1"
      using False ge by (simp add: Let_def)
    have "nat (indexOf xs c + 1) = Suc (nat (indexOf xs c))"
      using ge by simp
    moreover have "nat (indexOf xs c + 1 + 1) = Suc (nat (indexOf xs c + 1))"
      using ge by simp
    ultimately show ?thesis
      using Cons.IH [OF ge] False by (simp add: step del: indexOf.simps)
  qed
qed

text \<open>In a list sorted by a key, the first element that satisfies a test has the least key
  among those that do.\<close>

lemma find_sorted_first:
  "sorted (map f xs) \<Longrightarrow> find P xs = Some q \<Longrightarrow> x \<in> set xs \<Longrightarrow> P x \<Longrightarrow> f q \<le> (f x :: int)"
  by (induction xs) (auto split: if_splits)

lemma startsWith_append: "startsWith (p @ s) p"
  by (simp add: startsWith_def)

lemma startsWith_take: "startsWith s (p @ t) \<Longrightarrow> take (length p) s = p"
proof -
  assume a: "startsWith s (p @ t)"
  have "take (length p) s = take (length p) (take (length (p @ t)) s)"
    by (simp add: min_def)
  also have "\<dots> = p"
    using a by (simp add: startsWith_def)
  finally show ?thesis .
qed

lemma startsWith_same_length:
  "startsWith s (p @ t) \<Longrightarrow> startsWith s (q @ t') \<Longrightarrow> length p = length q \<Longrightarrow> p = q"
proof -
  assume a: "startsWith s (p @ t)" and b: "startsWith s (q @ t')" and l: "length p = length q"
  have "p = take (length p) s" using startsWith_take [OF a] by (rule sym)
  also have "\<dots> = take (length q) s" by (simp only: l)
  also have "\<dots> = q" by (rule startsWith_take [OF b])
  finally show ?thesis .
qed

lemma startsWith_colon_mem: "startsWith s (p @ '':'') \<Longrightarrow> CHR '':'' \<in> set s"
proof -
  assume a: "startsWith s (p @ '':'')"
  have "CHR '':'' \<in> set (take (length (p @ '':'')) s)"
    using a by (simp add: startsWith_def)
  then show ?thesis by (rule in_set_takeD)
qed

lemma startsWith_decompose:
  "startsWith s (p @ '':'') \<Longrightarrow> p @ '':'' @ drop (length p + 1) s = s"
proof -
  assume a: "startsWith s (p @ '':'')"
  have "take (length (p @ '':'')) s @ drop (length (p @ '':'')) s = s"
    by (rule append_take_drop_id)
  with a show ?thesis by (simp add: startsWith_def)
qed

text \<open>Whatever branch of \<open>parseTarget\<close> answers, the two parts it returns are the
  address cut at one colon.\<close>

lemma parseTarget_cuts_at_colon:
  assumes colon: "CHR '':'' \<in> set s"
  shows "\<exists>t. parseTarget bs s = Some t \<and> platform t @ '':'' @ chanText (channelId t) = s"
proof (cases "find (\<lambda>p. p \<noteq> [] \<and> startsWith s (p @ '':'')) (platformsOf bs)")
  case None
  have ge: "0 \<le> indexOf s CHR '':''"
    using colon indexOf_neg_iff [of s "CHR '':''"] by simp
  show ?thesis
    using None ge indexOf_split [OF ge]
    by (simp add: parseTarget_def Let_def)
next
  case (Some p)
  then have "startsWith s (p @ '':'')"
    by (auto simp: find_Some_iff)
  then show ?thesis
    using Some startsWith_decompose [of s p]
    by (simp add: parseTarget_def)
qed

text \<open>
  Claim C2, as the code has it. An address \<open>p:c\<close> whose \<open>p\<close> is the platform of a
  connected bot parses to platform \<open>p\<close> and channel \<open>c\<close>, colons inside \<open>c\<close> included,
  provided no longer connected platform name followed by a colon is also a prefix of the
  address: among the connected platform names that match, the longest one is chosen.
\<close>

theorem parseTarget_longest_platform:
  assumes conn: "p \<in> bot_platform ` set bs"
    and longest: "\<forall>q \<in> bot_platform ` set bs.
        q \<noteq> [] \<and> startsWith (p @ '':'' @ c) (q @ '':'') \<longrightarrow> length q \<le> length p"
  shows "parseTarget bs (p @ '':'' @ c) = Some \<lparr>platform = p, channelId = ChanStr c\<rparr>"
proof (cases "p = []")
  case True
  have "find (\<lambda>q. q \<noteq> [] \<and> startsWith (p @ '':'' @ c) (q @ '':'')) (platformsOf bs) = None"
    using longest True by (auto simp: find_None_iff set_platformsOf)
  then show ?thesis
    using True by (simp add: parseTarget_def)
next
  case False
  let ?t = "p @ '':'' @ c"
  let ?P = "\<lambda>q. q \<noteq> [] \<and> startsWith ?t (q @ '':'')"
  have Pp: "?P p"
    using False startsWith_append [of "p @ '':''" c] by simp
  have pin: "p \<in> set (platformsOf bs)"
    using conn by (simp add: set_platformsOf)
  obtain q where q: "find ?P (platformsOf bs) = Some q"
    using Pp pin by (cases "find ?P (platformsOf bs)") (auto simp: find_None_iff)
  have qin: "q \<in> set (platformsOf bs)" and Pq: "?P q"
    using q by (auto simp: find_Some_iff)
  have "- int (length q) \<le> - int (length p)"
    using find_sorted_first [OF sorted_platformsOf q pin Pp] .
  moreover have "length q \<le> length p"
    using longest qin Pq unfolding set_platformsOf by blast
  ultimately have "length q = length p" by simp
  with Pq Pp have "q = p"
    using startsWith_same_length [of ?t q "'':''" p "'':''"] by simp
  with q show ?thesis
    by (simp add: parseTarget_def)
qed

text \<open>The theorem at the address \<open>discord:200:x\<close> with bots on onebot and discord.\<close>

theorem parseTarget_longest_platform_witness:
  "parseTarget demoBots (''discord'' @ '':'' @ ''200:x'')
     = Some \<lparr>platform = ''discord'', channelId = ChanStr ''200:x''\<rparr>"
proof (rule parseTarget_longest_platform)
  show "''discord'' \<in> bot_platform ` set demoBots"
    by (simp add: demoBots_def)
  show "\<forall>q \<in> bot_platform ` set demoBots.
      q \<noteq> [] \<and> startsWith (''discord'' @ '':'' @ ''200:x'') (q @ '':'') \<longrightarrow> length q \<le> length ''discord''"
    by (simp add: demoBots_def startsWith_def)
qed

text \<open>
  Claim C2 as stated fails when one connected platform name extends another: with bots
  on \<open>sandbox\<close> and \<open>sandbox:ab\<close>, the address \<open>sandbox\<close> + \<open>:\<close> + \<open>ab:7\<close> is not
  parsed to platform \<open>sandbox\<close> and channel \<open>ab:7\<close>.
\<close>

theorem parseTarget_prefix_platform_counterexample:
  "''sandbox'' \<in> bot_platform ` set sandboxBots
   \<and> parseTarget sandboxBots (''sandbox'' @ '':'' @ ''ab:7'')
       = Some \<lparr>platform = ''sandbox:ab'', channelId = ChanStr ''7''\<rparr>
   \<and> parseTarget sandboxBots (''sandbox'' @ '':'' @ ''ab:7'')
       \<noteq> Some \<lparr>platform = ''sandbox'', channelId = ChanStr ''ab:7''\<rparr>"
  by (simp add: parseTarget_def platformsOf_def uniq_def sandboxBots_def startsWith_def)

text \<open>
  Claim C6. Every address that contains a colon parses, and formatting the parsed
  target (with whatever bot identity and guild are attached to it) gives the address
  back.
\<close>

theorem format_parse_roundtrip:
  assumes colon: "CHR '':'' \<in> set s"
  shows "\<exists>t. parseTarget bs s = Some t \<and> (\<forall>sid gid. formatTarget (withBot t sid gid) = s)"
  using parseTarget_cuts_at_colon [OF colon, of bs]
  by (auto simp: formatTarget_def withBot_def)

theorem format_parse_roundtrip_witness:
  "\<exists>t. parseTarget demoBots ''discord:200:x'' = Some t
       \<and> (\<forall>sid gid. formatTarget (withBot t sid gid) = ''discord:200:x'')"
  using format_parse_roundtrip [of "''discord:200:x''" demoBots] by simp

text \<open>
  Claim C7, as the code has it. \<open>parseTarget\<close> returns absence exactly for the addresses
  that contain no colon.
\<close>

theorem parseTarget_absent_iff: "parseTarget bs s = None \<longleftrightarrow> CHR '':'' \<notin> set s"
proof
  assume "parseTarget bs s = None"
  then show "CHR '':'' \<notin> set s"
    using parseTarget_cuts_at_colon [of s bs] by auto
next
  assume no: "CHR '':'' \<notin> set s"
  then have "find (\<lambda>p. p \<noteq> [] \<and> startsWith s (p @ '':'')) (platformsOf bs) = None"
    using startsWith_colon_mem [of s] by (auto simp: find_None_iff)
  then show "parseTarget bs s = None"
    using no indexOf_neg_iff [of s "CHR '':''"] by (simp add: parseTarget_def)
qed

theorem parseTarget_absent_iff_witness: "parseTarget demoBots ''discord200'' = None"
  using parseTarget_absent_iff [of demoBots "''discord200''"] by simp

text \<open>
  Claim C7 as stated fails for an address that begins with a colon: its platform part is
  empty and \<open>parseTarget\<close> still returns a target, with the empty platform.
\<close>

theorem parseTarget_empty_platform_counterexample:
  "parseTarget demoBots '':abc'' = Some \<lparr>platform = [], channelId = ChanStr ''abc''\<rparr>"
  by (simp add: parseTarget_def platformsOf_def uniq_def demoBots_def startsWith_def)

section \<open>Evaluating the scenarios\<close>

lemmas scenario_defs =
  demoEnv_def demoBots_def demoSession_def world0_def dbConfig_def fileConfig_def target_def
  origin100_def replySession_def emptyIdEnv_def replyEmpty_def brokenStoreEnv_def
  mentionSession_def zeroConfig_def monthConfig_def replyConstructor_def

lemmas code_defs =
  middleware_def relayGet_def getTargets_def fanout_def sendRelay_def register_def ttl_def hour_def
  botFor_def rewriteMentions_def withAuthor_def originOf_def getChannelId_def
  parseTarget_def platformsOf_def uniq_def startsWith_def withBot_def List.map_filter_def
  relayMessage_def relayFailure_def db_get_def db_upsert_def forward_remove_def Let_def
  dictGet_def inheritedGet_def entryField_def objectPrototypeKeys_def entryKeys_def dictSet_def
  dictDelete_def hostDelay_def undefinedEntry_def

lemma relayedWorld_eval:
  "relayedWorld =
     world0\<lparr>relayMap := [''M200'' \<mapsto> origin100], timers := [(1000, ''M200'')],
            outbox := [\<lparr>sent_bot = \<lparr>bot_platform = ''discord'', bot_selfId = ''B1''\<rparr>,
                        sent_channel = ChanStr ''200'',
                        sent_content = [Text ''bob: '', Text ''hi''], sent_guild = None\<rparr>],
            logs := [DebugTargets ''onebot:100'' [target ''discord'' ''200'' ''B1'']],
            next_calls := 1\<rparr>"
  by (simp add: relayedWorld_def scenario_defs code_defs fun_eq_iff)

lemma emptyIdWorld_eval: "relayMap emptyIdWorld [] = Some origin100"
  by (simp add: emptyIdWorld_def scenario_defs code_defs)

section \<open>Properties of the dispatch pipeline\<close>

lemma fold_register:
  "fold (register cfg entry) ids w =
     w\<lparr>relayMap := relayMap w
          ++ (\<lambda>k. if k \<in> set ids \<and> k \<noteq> ''__proto__'' then Some entry else None),
       relayProto := (if ''__proto__'' \<in> set ids then Some entry else relayProto w),
       timers := timers w @ map (\<lambda>i. (clock w + hostDelay (ttl cfg), i)) ids\<rparr>"
proof (induction ids arbitrary: w)
  case Nil
  then show ?case by simp
next
  case (Cons i ids)
  show ?case
    by (simp add: Cons.IH) (auto simp: register_def dictSet_def fun_eq_iff map_add_def)
qed

text \<open>A relay either delivers a message or leaves a log line, never both, unless the
  content is empty and it does nothing.\<close>

lemma relay_outcomes:
  "sess_content s \<noteq> [] \<Longrightarrow> (relayMessage env s e = None) \<noteq> (relayFailure env s e = None)"
  by (simp add: relayMessage_def relayFailure_def split: option.splits sum.splits)

lemma sendRelay_failure:
  "relayFailure env s e = Some l \<Longrightarrow> sendRelay env cfg s e w = w\<lparr>logs := logs w @ [l]\<rparr>"
  by (auto simp: relayFailure_def sendRelay_def Let_def split: if_splits option.splits sum.splits)

lemma outbox_sendRelay:
  "outbox (sendRelay env cfg s e w) = outbox w @ List.map_filter (relayMessage env s) [e]"
  by (simp add: sendRelay_def relayMessage_def fold_register List.map_filter_def Let_def
      split: option.splits sum.splits)

lemma outbox_fanout:
  "outbox (fanout env cfg s ts w) = outbox w @ List.map_filter (relayMessage env s) ts"
proof (induction ts arbitrary: w)
  case Nil
  then show ?case by (simp add: fanout_def List.map_filter_def)
next
  case (Cons t ts)
  have "fanout env cfg s (t # ts) w = fanout env cfg s ts (sendRelay env cfg s t w)"
    by (simp add: fanout_def)
  then show ?case
    using Cons.IH [of "sendRelay env cfg s t w"]
    by (simp add: outbox_sendRelay List.map_filter_def)
qed

lemma sendRelay_frame:
  "next_calls (sendRelay env cfg s e w) = next_calls w"
  "db_reads (sendRelay env cfg s e w) = db_reads w"
  "store (sendRelay env cfg s e w) = store w"
  "clock (sendRelay env cfg s e w) = clock w"
  by (simp_all add: sendRelay_def fold_register Let_def split: option.splits sum.splits)

lemma fanout_frame:
  "next_calls (fanout env cfg s ts w) = next_calls w"
  "db_reads (fanout env cfg s ts w) = db_reads w"
  "store (fanout env cfg s ts w) = store w"
  "clock (fanout env cfg s ts w) = clock w"
  by (induction ts arbitrary: w) (simp_all add: fanout_def sendRelay_frame)

lemma getTargets_frame:
  "next_calls (snd (getTargets env cfg s w)) = next_calls w"
  "outbox (snd (getTargets env cfg s w)) = outbox w"
  "relayMap (snd (getTargets env cfg s w)) = relayMap w"
  by (simp_all add: getTargets_def Let_def split: option.splits sum.splits list.splits)

text \<open>What a relay does to everything but the log does not depend on the log.\<close>

lemma erase_sendRelay:
  "(sendRelay env cfg s e w)\<lparr>logs := []\<rparr> = (sendRelay env cfg s e (w\<lparr>logs := []\<rparr>))\<lparr>logs := []\<rparr>"
  by (simp add: sendRelay_def fold_register Let_def split: option.splits sum.splits)

lemma erase_fanout:
  "(fanout env cfg s ts w)\<lparr>logs := []\<rparr> = (fanout env cfg s ts (w\<lparr>logs := []\<rparr>))\<lparr>logs := []\<rparr>"
proof (induction ts arbitrary: w)
  case Nil
  then show ?case by (simp add: fanout_def)
next
  case (Cons t ts)
  have "(fanout env cfg s (t # ts) w)\<lparr>logs := []\<rparr>
        = (fanout env cfg s ts (sendRelay env cfg s t w))\<lparr>logs := []\<rparr>"
    by (simp add: fanout_def)
  also have "\<dots> = (fanout env cfg s ts ((sendRelay env cfg s t w)\<lparr>logs := []\<rparr>))\<lparr>logs := []\<rparr>"
    by (rule Cons.IH)
  also have "\<dots> = (fanout env cfg s ts ((sendRelay env cfg s t (w\<lparr>logs := []\<rparr>))\<lparr>logs := []\<rparr>))\<lparr>logs := []\<rparr>"
    by (simp only: erase_sendRelay [of env cfg s t w])
  also have "\<dots> = (fanout env cfg s ts (sendRelay env cfg s t (w\<lparr>logs := []\<rparr>)))\<lparr>logs := []\<rparr>"
    by (rule Cons.IH [symmetric])
  also have "\<dots> = (fanout env cfg s (t # ts) (w\<lparr>logs := []\<rparr>))\<lparr>logs := []\<rparr>"
    by (simp add: fanout_def)
  finally show ?case .
qed

lemma logs_sendRelay_grow: "\<exists>d. logs (sendRelay env cfg s e w) = logs w @ d"
  by (simp add: sendRelay_def fold_register Let_def split: option.splits sum.splits)

lemma logs_fanout_grow: "\<exists>d. logs (fanout env cfg s ts w) = logs w @ d"
proof (induction ts arbitrary: w)
  case Nil
  then show ?case by (simp add: fanout_def)
next
  case (Cons t ts)
  obtain d1 where d1: "logs (sendRelay env cfg s t w) = logs w @ d1"
    using logs_sendRelay_grow by blast
  obtain d2 where "logs (fanout env cfg s ts (sendRelay env cfg s t w))
      = logs (sendRelay env cfg s t w) @ d2"
    using Cons.IH by blast
  with d1 show ?case by (simp add: fanout_def)
qed

lemma fanout_append:
  "fanout env cfg s (xs @ ys) w = fanout env cfg s ys (fanout env cfg s xs w)"
  by (simp add: fanout_def)

text \<open>
  Claim C3. In a fan-out over the destinations \<open>xs @ k # ys\<close> where the relay to \<open>k\<close>
  fails (its bot is not connected, the member directory raises, or its send raises), the
  world ends up as after the fan-out over \<open>xs @ ys\<close> in everything but the log: the same
  messages are delivered, one per destination whose relay does not fail, and the same
  correlation entries and timers are registered. The failure of \<open>k\<close> is logged, after
  the log lines of the destinations before it.
\<close>

theorem fanout_isolates_failure:
  assumes fails: "relayFailure env s k = Some l"
  shows "(fanout env cfg s (xs @ k # ys) w)\<lparr>logs := []\<rparr> = (fanout env cfg s (xs @ ys) w)\<lparr>logs := []\<rparr>
       \<and> outbox (fanout env cfg s (xs @ k # ys) w)
           = outbox w @ List.map_filter (relayMessage env s) (xs @ ys)
       \<and> (\<exists>d. logs (fanout env cfg s (xs @ k # ys) w) = logs (fanout env cfg s xs w) @ l # d)"
proof -
  let ?w1 = "fanout env cfg s xs w"
  let ?wk = "?w1\<lparr>logs := logs ?w1 @ [l]\<rparr>"
  have full: "fanout env cfg s (xs @ k # ys) w = fanout env cfg s ys ?wk"
    using sendRelay_failure [OF fails, of cfg ?w1] by (simp add: fanout_def)
  have "(fanout env cfg s (xs @ k # ys) w)\<lparr>logs := []\<rparr> = (fanout env cfg s ys ?wk)\<lparr>logs := []\<rparr>"
    by (simp only: full)
  also have "\<dots> = (fanout env cfg s ys (?wk\<lparr>logs := []\<rparr>))\<lparr>logs := []\<rparr>"
    by (rule erase_fanout)
  also have "?wk\<lparr>logs := []\<rparr> = ?w1\<lparr>logs := []\<rparr>" by simp
  also have "(fanout env cfg s ys (?w1\<lparr>logs := []\<rparr>))\<lparr>logs := []\<rparr> = (fanout env cfg s ys ?w1)\<lparr>logs := []\<rparr>"
    by (rule erase_fanout [symmetric])
  also have "\<dots> = (fanout env cfg s (xs @ ys) w)\<lparr>logs := []\<rparr>"
    by (simp add: fanout_append)
  finally have a: "(fanout env cfg s (xs @ k # ys) w)\<lparr>logs := []\<rparr>
      = (fanout env cfg s (xs @ ys) w)\<lparr>logs := []\<rparr>" .
  have "outbox (fanout env cfg s (xs @ k # ys) w) = outbox ((fanout env cfg s (xs @ k # ys) w)\<lparr>logs := []\<rparr>)"
    by simp
  also have "\<dots> = outbox (fanout env cfg s (xs @ ys) w)"
    by (simp only: a) simp
  finally have b: "outbox (fanout env cfg s (xs @ k # ys) w)
      = outbox w @ List.map_filter (relayMessage env s) (xs @ ys)"
    by (simp add: outbox_fanout)
  obtain d where "logs (fanout env cfg s ys ?wk) = logs ?wk @ d"
    using logs_fanout_grow by blast
  then have c: "\<exists>d. logs (fanout env cfg s (xs @ k # ys) w) = logs ?w1 @ l # d"
    by (simp add: full)
  from a b c show ?thesis by blast
qed

text \<open>
  The theorem at three destinations, the middle one a channel whose send raises: the two
  others receive the message.
\<close>

theorem fanout_isolates_failure_witness:
  "outbox (fanout demoEnv fileConfig demoSession
       ([target ''discord'' ''200'' ''B1''] @ target ''discord'' ''666'' ''B1''
          # [target ''onebot'' ''300'' ''B0'']) world0)
     = [\<lparr>sent_bot = \<lparr>bot_platform = ''discord'', bot_selfId = ''B1''\<rparr>,
          sent_channel = ChanStr ''200'',
          sent_content = [Text ''bob: '', Text ''hi''], sent_guild = None\<rparr>,
        \<lparr>sent_bot = \<lparr>bot_platform = ''onebot'', bot_selfId = ''B0''\<rparr>,
          sent_channel = ChanStr ''300'',
          sent_content = [Text ''bob: '', Text ''hi''], sent_guild = None\<rparr>]"
proof -
  have fails: "relayFailure demoEnv demoSession (target ''discord'' ''666'' ''B1'')
      = Some (Caught (Error ''send failed''))"
    by (simp add: scenario_defs code_defs)
  have "outbox (fanout demoEnv fileConfig demoSession
       ([target ''discord'' ''200'' ''B1''] @ target ''discord'' ''666'' ''B1''
          # [target ''onebot'' ''300'' ''B0'']) world0)
     = outbox world0 @ List.map_filter (relayMessage demoEnv demoSession)
         ([target ''discord'' ''200'' ''B1''] @ [target ''onebot'' ''300'' ''B0''])"
    using fanout_isolates_failure [OF fails] by blast
  also have "\<dots> = [\<lparr>sent_bot = \<lparr>bot_platform = ''discord'', bot_selfId = ''B1''\<rparr>,
          sent_channel = ChanStr ''200'',
          sent_content = [Text ''bob: '', Text ''hi''], sent_guild = None\<rparr>,
        \<lparr>sent_bot = \<lparr>bot_platform = ''onebot'', bot_selfId = ''B0''\<rparr>,
          sent_channel = ChanStr ''300'',
          sent_content = [Text ''bob: '', Text ''hi''], sent_guild = None\<rparr>]"
    by (simp add: scenario_defs code_defs)
  finally show ?thesis .
qed

section \<open>Properties of the lookup and of the middleware\<close>

lemma dictGet_own:
  "q \<noteq> ''__proto__'' \<Longrightarrow> relayMap w q = Some e \<Longrightarrow> dictGet w q = EntryV e"
  by (simp add: dictGet_def)

lemma entryField_None_iff: "entryField e key = None \<longleftrightarrow> key \<notin> set entryKeys"
  by (simp add: entryField_def entryKeys_def)

text \<open>A key that names nothing on the prototype chain reads as \<^verbatim>\<open>undefined\<close> there.\<close>

lemma inheritedGet_plain:
  assumes "key \<noteq> ''__proto__''" and "key \<notin> set entryKeys" and "key \<notin> set objectPrototypeKeys"
  shows "inheritedGet w key = Undefined"
proof -
  have "(case relayProto w of Some e \<Rightarrow> entryField e key | None \<Rightarrow> None) = None"
    using assms(2) by (simp add: entryField_None_iff split: option.splits)
  then show ?thesis
    using assms(1,3) by (simp add: inheritedGet_def)
qed

lemma dictGet_absent:
  assumes "relayMap w key = None" and "key \<noteq> ''__proto__''"
    and "key \<notin> set entryKeys" and "key \<notin> set objectPrototypeKeys"
  shows "dictGet w key = Undefined"
  using assms by (simp add: dictGet_def inheritedGet_plain)

lemma relayGet_quoted:
  "quote = Some qt \<Longrightarrow> quote_id qt = Some q \<Longrightarrow> q \<noteq> [] \<Longrightarrow> relayGet w quote = dictGet w q"
  by (simp add: relayGet_def)

lemma relayGet_falsy_iff:
  "\<not> truthyValue (relayGet w quote) \<longleftrightarrow>
     (quote = None \<or> (\<exists>qt. quote = Some qt \<and> (quote_id qt = None \<or> quote_id qt = Some []
         \<or> (\<exists>q. quote_id qt = Some q \<and> \<not> truthyValue (dictGet w q)))))"
  by (auto simp: relayGet_def split: option.splits)

lemma middleware_hit:
  "truthyValue (relayGet w (sess_quote s)) \<Longrightarrow>
     middleware env cfg s nxt w
       = (Inr None, sendRelay env cfg s (asEntry (relayGet w (sess_quote s))) w)"
  by (simp add: middleware_def)

lemma middleware_miss:
  "\<not> truthyValue (relayGet w (sess_quote s)) \<Longrightarrow>
     middleware env cfg s nxt w =
       ((case nxt of Inl err \<Rightarrow> Inl err | Inr result \<Rightarrow> Inr (Some result)),
        (fanout env cfg s (fst (getTargets env cfg s w))
           ((snd (getTargets env cfg s w))
              \<lparr>logs := logs (snd (getTargets env cfg s w))
                 @ [DebugTargets (sess_cid s) (fst (getTargets env cfg s w))]\<rparr>))
          \<lparr>next_calls := Suc (next_calls w)\<rparr>)"
proof -
  assume g: "\<not> truthyValue (relayGet w (sess_quote s))"
  obtain ts w1 where gt: "getTargets env cfg s w = (ts, w1)"
    by (cases "getTargets env cfg s w")
  have "next_calls w1 = next_calls w"
    using getTargets_frame(1) [of env cfg s w] by (simp add: gt)
  then show ?thesis
    using g by (simp add: middleware_def Let_def fanout_frame gt)
qed

text \<open>
  Claim C1, as the code has it. The read \<^verbatim>\<open>relayMap[quote.id]\<close> is \<open>dictGet\<close>: an own
  property, or else what the object inherits.

  First conjunct: a message that quotes a non-empty id, other than \<^verbatim>\<open>__proto__\<close>,
  which is a live key (an own property) of the correlation object is handled by one
  relay, to the recorded entry, and by nothing else: the world afterwards is the world
  after that relay, the outbox grows by the one message of that relay (if it delivers),
  and the store is not queried.

  Second conjunct: more generally, whenever the read of a non-empty quoted id is
  truthy, the message is handled by the one relay that \<^verbatim>\<open>sendRelay\<close> makes of the value
  read, and targets are not resolved; this is also what happens for an id that is not
  a live key but names an inherited member.

  Third conjunct: a message with no quotation, with a quotation without id or with the
  empty id, or with an id whose read is falsy is fanned out: the world afterwards is
  the world after the relays to all resolved targets, and the outbox grows by one
  message per target whose relay delivers.

  Fourth conjunct: in particular a message whose quoted id is neither a live key nor
  the name of an inherited member (\<^verbatim>\<open>__proto__\<close>, a field name of an entry, a member of
  \<^verbatim>\<open>Object.prototype\<close>) is fanned out in that way.
\<close>

theorem middleware_reply_or_forward:
  "(sess_quote s = Some qt \<and> quote_id qt = Some q \<and> q \<noteq> [] \<and> q \<noteq> ''__proto__''
      \<and> relayMap w q = Some entry \<longrightarrow>
      snd (middleware env cfg s nxt w) = sendRelay env cfg s entry w
      \<and> outbox (snd (middleware env cfg s nxt w))
          = outbox w @ List.map_filter (relayMessage env s) [entry]
      \<and> db_reads (snd (middleware env cfg s nxt w)) = db_reads w)
   \<and> (sess_quote s = Some qt \<and> quote_id qt = Some q \<and> q \<noteq> [] \<and> truthyValue (dictGet w q) \<longrightarrow>
      snd (middleware env cfg s nxt w) = sendRelay env cfg s (asEntry (dictGet w q)) w
      \<and> outbox (snd (middleware env cfg s nxt w))
          = outbox w @ List.map_filter (relayMessage env s) [asEntry (dictGet w q)]
      \<and> db_reads (snd (middleware env cfg s nxt w)) = db_reads w)
   \<and> (sess_quote s = None
       \<or> (\<exists>qt. sess_quote s = Some qt
             \<and> (quote_id qt = None \<or> quote_id qt = Some []
                 \<or> (\<exists>q. quote_id qt = Some q \<and> \<not> truthyValue (dictGet w q)))) \<longrightarrow>
      snd (middleware env cfg s nxt w) =
        (fanout env cfg s (fst (getTargets env cfg s w))
           ((snd (getTargets env cfg s w))
              \<lparr>logs := logs (snd (getTargets env cfg s w))
                 @ [DebugTargets (sess_cid s) (fst (getTargets env cfg s w))]\<rparr>))
          \<lparr>next_calls := Suc (next_calls w)\<rparr>
      \<and> outbox (snd (middleware env cfg s nxt w))
          = outbox w @ List.map_filter (relayMessage env s) (fst (getTargets env cfg s w)))
   \<and> (sess_quote s = Some qt \<and> quote_id qt = Some q \<and> relayMap w q = None
       \<and> q \<noteq> ''__proto__'' \<and> q \<notin> set entryKeys \<and> q \<notin> set objectPrototypeKeys \<longrightarrow>
      snd (middleware env cfg s nxt w) =
        (fanout env cfg s (fst (getTargets env cfg s w))
           ((snd (getTargets env cfg s w))
              \<lparr>logs := logs (snd (getTargets env cfg s w))
                 @ [DebugTargets (sess_cid s) (fst (getTargets env cfg s w))]\<rparr>))
          \<lparr>next_calls := Suc (next_calls w)\<rparr>
      \<and> outbox (snd (middleware env cfg s nxt w))
          = outbox w @ List.map_filter (relayMessage env s) (fst (getTargets env cfg s w)))"
proof -
  have general: "snd (middleware env cfg s nxt w) = sendRelay env cfg s (asEntry (dictGet w q)) w
      \<and> outbox (snd (middleware env cfg s nxt w))
          = outbox w @ List.map_filter (relayMessage env s) [asEntry (dictGet w q)]
      \<and> db_reads (snd (middleware env cfg s nxt w)) = db_reads w"
    if quoted: "sess_quote s = Some qt \<and> quote_id qt = Some q \<and> q \<noteq> []"
      and found: "truthyValue (dictGet w q)"
  proof -
    have g: "relayGet w (sess_quote s) = dictGet w q"
      using quoted by (simp add: relayGet_quoted)
    have m: "middleware env cfg s nxt w
        = (Inr None, sendRelay env cfg s (asEntry (dictGet w q)) w)"
      using middleware_hit [of w s env cfg nxt] found by (simp add: g)
    show ?thesis
      by (simp add: m outbox_sendRelay sendRelay_frame)
  qed
  have own: "snd (middleware env cfg s nxt w) = sendRelay env cfg s entry w
      \<and> outbox (snd (middleware env cfg s nxt w))
          = outbox w @ List.map_filter (relayMessage env s) [entry]
      \<and> db_reads (snd (middleware env cfg s nxt w)) = db_reads w"
    if live: "sess_quote s = Some qt \<and> quote_id qt = Some q \<and> q \<noteq> [] \<and> q \<noteq> ''__proto__''
      \<and> relayMap w q = Some entry"
  proof -
    have d: "dictGet w q = EntryV entry"
      using live by (simp add: dictGet_own)
    have quoted: "sess_quote s = Some qt \<and> quote_id qt = Some q \<and> q \<noteq> []"
      using live by blast
    have found: "truthyValue (dictGet w q)"
      by (simp add: d)
    show ?thesis
      by (rule general [OF quoted found, unfolded d asEntry.simps])
  qed
  have forward: "snd (middleware env cfg s nxt w) =
        (fanout env cfg s (fst (getTargets env cfg s w))
           ((snd (getTargets env cfg s w))
              \<lparr>logs := logs (snd (getTargets env cfg s w))
                 @ [DebugTargets (sess_cid s) (fst (getTargets env cfg s w))]\<rparr>))
          \<lparr>next_calls := Suc (next_calls w)\<rparr>
      \<and> outbox (snd (middleware env cfg s nxt w))
          = outbox w @ List.map_filter (relayMessage env s) (fst (getTargets env cfg s w))"
    if miss: "sess_quote s = None
       \<or> (\<exists>qt. sess_quote s = Some qt
             \<and> (quote_id qt = None \<or> quote_id qt = Some []
                 \<or> (\<exists>q. quote_id qt = Some q \<and> \<not> truthyValue (dictGet w q))))"
  proof -
    have g: "\<not> truthyValue (relayGet w (sess_quote s))"
      using miss by (simp only: relayGet_falsy_iff)
    show ?thesis
      by (simp add: middleware_miss [OF g] outbox_fanout getTargets_frame)
  qed
  have absent: "snd (middleware env cfg s nxt w) =
        (fanout env cfg s (fst (getTargets env cfg s w))
           ((snd (getTargets env cfg s w))
              \<lparr>logs := logs (snd (getTargets env cfg s w))
                 @ [DebugTargets (sess_cid s) (fst (getTargets env cfg s w))]\<rparr>))
          \<lparr>next_calls := Suc (next_calls w)\<rparr>
      \<and> outbox (snd (middleware env cfg s nxt w))
          = outbox w @ List.map_filter (relayMessage env s) (fst (getTargets env cfg s w))"
    if plain: "sess_quote s = Some qt \<and> quote_id qt = Some q \<and> relayMap w q = None
       \<and> q \<noteq> ''__proto__'' \<and> q \<notin> set entryKeys \<and> q \<notin> set objectPrototypeKeys"
  proof -
    have "dictGet w q = Undefined"
      using plain by (simp add: dictGet_absent)
    then have "\<not> truthyValue (dictGet w q)"
      by simp
    with plain have "sess_quote s = None
       \<or> (\<exists>qt. sess_quote s = Some qt
             \<and> (quote_id qt = None \<or> quote_id qt = Some []
                 \<or> (\<exists>q. quote_id qt = Some q \<and> \<not> truthyValue (dictGet w q))))"
      by blast
    then show ?thesis
      by (rule forward)
  qed
  from general own forward absent show ?thesis by blast
qed

text \<open>
  The theorem in the scenario: the reply in discord:200 that quotes M200 is sent to the
  recorded origin onebot:100 only, although discord:200 has the forward target
  onebot:300; the first message, which quotes nothing, went to its forward target.
\<close>

theorem middleware_reply_or_forward_witness:
  "outbox (snd (middleware demoEnv fileConfig replySession (Inr (0::nat)) relayedWorld))
     = outbox relayedWorld
       @ [\<lparr>sent_bot = \<lparr>bot_platform = ''onebot'', bot_selfId = ''B0''\<rparr>,
            sent_channel = ChanStr ''100'',
            sent_content = [Text ''carol: '', Text ''hello''], sent_guild = Some ''G1''\<rparr>]
   \<and> outbox (snd (middleware demoEnv fileConfig demoSession (Inr (0::nat)) world0))
     = [\<lparr>sent_bot = \<lparr>bot_platform = ''discord'', bot_selfId = ''B1''\<rparr>,
          sent_channel = ChanStr ''200'',
          sent_content = [Text ''bob: '', Text ''hi''], sent_guild = None\<rparr>]"
proof -
  have hit: "sess_quote replySession = Some \<lparr>quote_id = Some ''M200''\<rparr>
      \<and> quote_id \<lparr>quote_id = Some ''M200''\<rparr> = Some ''M200'' \<and> ''M200'' \<noteq> []
      \<and> ''M200'' \<noteq> ''__proto__'' \<and> relayMap relayedWorld ''M200'' = Some origin100"
    by (simp add: relayedWorld_eval replySession_def)
  have "outbox (snd (middleware demoEnv fileConfig replySession (Inr (0::nat)) relayedWorld))
      = outbox relayedWorld @ List.map_filter (relayMessage demoEnv replySession) [origin100]"
    using middleware_reply_or_forward
      [where s = replySession and qt = "\<lparr>quote_id = Some ''M200''\<rparr>" and q = "''M200''"
         and w = relayedWorld and entry = origin100 and env = demoEnv and cfg = fileConfig
         and nxt = "Inr (0::nat)"] hit
    by blast
  then have a: "outbox (snd (middleware demoEnv fileConfig replySession (Inr (0::nat)) relayedWorld))
     = outbox relayedWorld
       @ [\<lparr>sent_bot = \<lparr>bot_platform = ''onebot'', bot_selfId = ''B0''\<rparr>,
            sent_channel = ChanStr ''100'',
            sent_content = [Text ''carol: '', Text ''hello''], sent_guild = Some ''G1''\<rparr>]"
    by (simp add: scenario_defs code_defs)
  have miss: "sess_quote demoSession = None"
    by (simp add: demoSession_def)
  have "outbox (snd (middleware demoEnv fileConfig demoSession (Inr (0::nat)) world0))
      = outbox world0 @ List.map_filter (relayMessage demoEnv demoSession)
          (fst (getTargets demoEnv fileConfig demoSession world0))"
    using middleware_reply_or_forward
      [where s = demoSession and w = world0 and env = demoEnv and cfg = fileConfig
         and nxt = "Inr (0::nat)"] miss
    by blast
  then have b: "outbox (snd (middleware demoEnv fileConfig demoSession (Inr (0::nat)) world0))
     = [\<lparr>sent_bot = \<lparr>bot_platform = ''discord'', bot_selfId = ''B1''\<rparr>,
          sent_channel = ChanStr ''200'',
          sent_content = [Text ''bob: '', Text ''hi''], sent_guild = None\<rparr>]"
    by (simp add: scenario_defs code_defs)
  from a b show ?thesis by blast
qed

text \<open>
  Claim C1 as stated fails in both directions.

  A quoted id that is a live key, yet no relay to the origin: with an adapter whose
  send returns the empty string as message id, the empty string is a live key that
  records the origin onebot:100; a reply in discord:200 that quotes the empty id is
  nevertheless forwarded to the forward target onebot:300 and not relayed to the origin,
  because the guard \<^verbatim>\<open>quote.id ? ... : undefined\<close> reads the empty id as no quotation.
  The fourth conjunct is what the relay to the recorded origin would have delivered.

  A quoted id that is not a live key, yet no fan-out: in the initial world nothing is
  registered, and a message in discord:200 that quotes the id \<open>constructor\<close> has the
  forward target onebot:300; the read finds the inherited \<^verbatim>\<open>Object.prototype.constructor\<close>,
  the reply branch is taken with it, no bot \<open>undefined:undefined\<close> is connected, and
  nothing is sent.
\<close>

theorem middleware_empty_quote_id_counterexample:
  "sess_quote replyEmpty = Some \<lparr>quote_id = Some []\<rparr>
   \<and> relayMap emptyIdWorld [] = Some origin100
   \<and> outbox (snd (middleware emptyIdEnv fileConfig replyEmpty (Inr (0::nat)) emptyIdWorld))
       = outbox emptyIdWorld
         @ [\<lparr>sent_bot = \<lparr>bot_platform = ''onebot'', bot_selfId = ''B0''\<rparr>,
              sent_channel = ChanStr ''300'',
              sent_content = [Text ''carol: '', Text ''hello''], sent_guild = None\<rparr>]
   \<and> outbox (sendRelay emptyIdEnv fileConfig replyEmpty origin100 emptyIdWorld)
       = outbox emptyIdWorld
         @ [\<lparr>sent_bot = \<lparr>bot_platform = ''onebot'', bot_selfId = ''B0''\<rparr>,
              sent_channel = ChanStr ''100'',
              sent_content = [Text ''carol: '', Text ''hello''], sent_guild = Some ''G1''\<rparr>]
   \<and> sess_quote replyConstructor = Some \<lparr>quote_id = Some ''constructor''\<rparr>
   \<and> relayMap world0 ''constructor'' = None
   \<and> fst (getTargets demoEnv fileConfig replyConstructor world0)
       = [target ''onebot'' ''300'' ''B0'']
   \<and> outbox (snd (middleware demoEnv fileConfig replyConstructor (Inr (0::nat)) world0)) = []
   \<and> logs (snd (middleware demoEnv fileConfig replyConstructor (Inr (0::nat)) world0))
       = [BotNotFound ''undefined'' ''undefined'']"
proof -
  have q: "sess_quote replyEmpty = Some \<lparr>quote_id = Some []\<rparr>"
    by (simp add: replyEmpty_def replySession_def)
  have "\<not> truthyValue (relayGet emptyIdWorld (sess_quote replyEmpty))"
    by (simp add: relayGet_def replyEmpty_def replySession_def)
  then have "outbox (snd (middleware emptyIdEnv fileConfig replyEmpty (Inr (0::nat)) emptyIdWorld))
      = outbox emptyIdWorld @ List.map_filter (relayMessage emptyIdEnv replyEmpty)
          (fst (getTargets emptyIdEnv fileConfig replyEmpty emptyIdWorld))"
    by (simp add: middleware_miss outbox_fanout getTargets_frame)
  then have m: "outbox (snd (middleware emptyIdEnv fileConfig replyEmpty (Inr (0::nat)) emptyIdWorld))
       = outbox emptyIdWorld
         @ [\<lparr>sent_bot = \<lparr>bot_platform = ''onebot'', bot_selfId = ''B0''\<rparr>,
              sent_channel = ChanStr ''300'',
              sent_content = [Text ''carol: '', Text ''hello''], sent_guild = None\<rparr>]"
    by (simp add: scenario_defs code_defs)
  have r: "outbox (sendRelay emptyIdEnv fileConfig replyEmpty origin100 emptyIdWorld)
       = outbox emptyIdWorld
         @ [\<lparr>sent_bot = \<lparr>bot_platform = ''onebot'', bot_selfId = ''B0''\<rparr>,
              sent_channel = ChanStr ''100'',
              sent_content = [Text ''carol: '', Text ''hello''], sent_guild = Some ''G1''\<rparr>]"
    by (simp add: outbox_sendRelay) (simp add: scenario_defs code_defs)
  have c: "sess_quote replyConstructor = Some \<lparr>quote_id = Some ''constructor''\<rparr>
   \<and> relayMap world0 ''constructor'' = None
   \<and> fst (getTargets demoEnv fileConfig replyConstructor world0)
       = [target ''onebot'' ''300'' ''B0'']
   \<and> outbox (snd (middleware demoEnv fileConfig replyConstructor (Inr (0::nat)) world0)) = []
   \<and> logs (snd (middleware demoEnv fileConfig replyConstructor (Inr (0::nat)) world0))
       = [BotNotFound ''undefined'' ''undefined'']"
    by (simp add: scenario_defs code_defs)
  from q m r c emptyIdWorld_eval show ?thesis by blast
qed

text \<open>
  Claim C4, as the code has it. When the message is a forward candidate (the lookup of
  its quotation yields nothing truthy), the middleware calls the continuation once and
  returns its outcome, whatever the relays did. When the message is a reply candidate
  (the lookup yields a truthy value), the middleware returns \<^verbatim>\<open>undefined\<close> after the one
  relay and does not call the continuation.
\<close>

theorem middleware_continuation:
  "(\<not> truthyValue (relayGet w (sess_quote s)) \<longrightarrow>
      fst (middleware env cfg s nxt w)
        = (case nxt of Inl err \<Rightarrow> Inl err | Inr result \<Rightarrow> Inr (Some result))
      \<and> next_calls (snd (middleware env cfg s nxt w)) = Suc (next_calls w))
   \<and> (truthyValue (relayGet w (sess_quote s)) \<longrightarrow>
      fst (middleware env cfg s nxt w) = Inr None
      \<and> next_calls (snd (middleware env cfg s nxt w)) = next_calls w)"
proof (intro conjI impI)
  assume g: "\<not> truthyValue (relayGet w (sess_quote s))"
  show "fst (middleware env cfg s nxt w)
        = (case nxt of Inl err \<Rightarrow> Inl err | Inr result \<Rightarrow> Inr (Some result))"
    by (simp add: middleware_miss [OF g])
  show "next_calls (snd (middleware env cfg s nxt w)) = Suc (next_calls w)"
    by (simp add: middleware_miss [OF g])
next
  assume g: "truthyValue (relayGet w (sess_quote s))"
  show "fst (middleware env cfg s nxt w) = Inr None"
    by (simp add: middleware_hit [OF g])
  show "next_calls (snd (middleware env cfg s nxt w)) = next_calls w"
    by (simp add: middleware_hit [OF g] sendRelay_frame)
qed

text \<open>
  The theorem in the scenario. With a failing store and a continuation that returns 7,
  the first message is a forward candidate: the continuation is called and 7 is
  returned. The reply that quotes M200 is a reply candidate, and so is the message that
  quotes the id \<open>constructor\<close>: the result is \<^verbatim>\<open>undefined\<close> even when the continuation
  would raise, and the continuation is not called.
\<close>

theorem middleware_continuation_witness:
  "fst (middleware brokenStoreEnv dbConfig demoSession (Inr (7::nat)) world0) = Inr (Some 7)
   \<and> next_calls (snd (middleware brokenStoreEnv dbConfig demoSession (Inr (7::nat)) world0)) = 1
   \<and> fst (middleware demoEnv fileConfig replySession (Inl (Error ''next failed'') :: error + nat)
           relayedWorld) = Inr None
   \<and> fst (middleware demoEnv fileConfig replyConstructor (Inr (7::nat)) world0) = Inr None
   \<and> next_calls (snd (middleware demoEnv fileConfig replyConstructor (Inr (7::nat)) world0)) = 0"
proof -
  have miss: "\<not> truthyValue (relayGet world0 (sess_quote demoSession))"
    by (simp add: relayGet_def demoSession_def)
  have hit: "truthyValue (relayGet relayedWorld (sess_quote replySession))"
    by (simp add: relayGet_def dictGet_def replySession_def relayedWorld_eval)
  have inherited: "truthyValue (relayGet world0 (sess_quote replyConstructor))"
    by (simp add: scenario_defs code_defs)
  show ?thesis
    using middleware_continuation
        [where s = demoSession and w = world0 and env = brokenStoreEnv and cfg = dbConfig
           and nxt = "Inr (7::nat)"]
      middleware_continuation
        [where s = replySession and w = relayedWorld and env = demoEnv and cfg = fileConfig
           and nxt = "Inl (Error ''next failed'') :: error + nat"]
      middleware_continuation
        [where s = replyConstructor and w = world0 and env = demoEnv and cfg = fileConfig
           and nxt = "Inr (7::nat)"]
      miss hit inherited
    by (simp add: world0_def)
qed

text \<open>
  Claim C4 as stated fails for a reply candidate: for the reply that quotes M200 the
  continuation would return 7, but the middleware returns \<^verbatim>\<open>undefined\<close> and the
  continuation has not been called.
\<close>

theorem middleware_reply_skips_next_counterexample:
  "fst (middleware demoEnv fileConfig replySession (Inr (7::nat)) relayedWorld) = Inr None
   \<and> next_calls (snd (middleware demoEnv fileConfig replySession (Inr (7::nat)) relayedWorld))
       = next_calls relayedWorld"
  by (simp add: relayedWorld_eval) (simp add: scenario_defs code_defs)

section \<open>Properties of the target resolver and of the remove command\<close>

text \<open>
  Claim C8. In database mode, when the session carries no forward list and the read of
  the channel row raises, \<open>getTargets\<close> returns the empty list, counts the read and logs
  the failure; nothing else changes. The middleware that called it (it calls it when
  the lookup of the quotation yields nothing truthy) goes on: it relays nothing and
  returns the outcome of the continuation.
\<close>

theorem getTargets_store_failure:
  assumes db: "mode cfg = Some Database"
    and detached: "(case sess_channel s of Some ch \<Rightarrow> forward ch | None \<Rightarrow> None) = None"
    and chan: "truthy (getChannelId s)"
    and raises: "db_get env w (sess_platform s) (getChannelId s) = Inl err"
  shows "getTargets env cfg s w
           = ([], w\<lparr>db_reads := Suc (db_reads w), logs := logs w @ [FetchFailed err]\<rparr>)
       \<and> (\<not> truthyValue (relayGet w (sess_quote s)) \<longrightarrow>
            fst (middleware env cfg s nxt w)
              = (case nxt of Inl e \<Rightarrow> Inl e | Inr result \<Rightarrow> Inr (Some result))
            \<and> outbox (snd (middleware env cfg s nxt w)) = outbox w)"
proof -
  have t: "getTargets env cfg s w
           = ([], w\<lparr>db_reads := Suc (db_reads w), logs := logs w @ [FetchFailed err]\<rparr>)"
    using db detached chan raises by (simp add: getTargets_def Let_def)
  have "\<not> truthyValue (relayGet w (sess_quote s)) \<Longrightarrow>
      fst (middleware env cfg s nxt w)
        = (case nxt of Inl e \<Rightarrow> Inl e | Inr result \<Rightarrow> Inr (Some result))
      \<and> outbox (snd (middleware env cfg s nxt w)) = outbox w"
    by (simp add: middleware_miss t fanout_def)
  with t show ?thesis by blast
qed

theorem getTargets_store_failure_witness:
  "getTargets brokenStoreEnv dbConfig demoSession world0
     = ([], world0\<lparr>db_reads := 1, logs := [FetchFailed (Error ''EIO'')]\<rparr>)
   \<and> fst (middleware brokenStoreEnv dbConfig demoSession (Inr (7::nat)) world0) = Inr (Some 7)
   \<and> outbox (snd (middleware brokenStoreEnv dbConfig demoSession (Inr (7::nat)) world0)) = []"
proof -
  have db: "mode dbConfig = Some Database"
    by (simp add: dbConfig_def)
  have detached: "(case sess_channel demoSession of Some ch \<Rightarrow> forward ch | None \<Rightarrow> None) = None"
    by (simp add: demoSession_def)
  have chan: "truthy (getChannelId demoSession)"
    by (simp add: getChannelId_def demoSession_def)
  have raises: "db_get brokenStoreEnv world0 (sess_platform demoSession) (getChannelId demoSession)
      = Inl (Error ''EIO'')"
    by (simp add: db_get_def brokenStoreEnv_def demoEnv_def)
  have miss: "\<not> truthyValue (relayGet world0 (sess_quote demoSession))"
    by (simp add: relayGet_def demoSession_def)
  show ?thesis
    using getTargets_store_failure [OF db detached chan raises, of "Inr (7::nat)"] miss
    by (simp add: world0_def)
qed

text \<open>
  Claim C10. When the argument of the remove command does not parse, the command
  answers "unchanged" with the argument and leaves the world as it was: no store read,
  no store write, the persisted forward lists untouched.
\<close>

theorem remove_unparsable_unchanged:
  assumes "parseTarget (bots env) arg = None"
  shows "forward_remove env cfg s arg w = (Inr (Unchanged arg), w)"
  using assms by (simp add: forward_remove_def)

theorem remove_unparsable_unchanged_witness:
  "forward_remove demoEnv dbConfig demoSession ''discord200'' world0
     = (Inr (Unchanged ''discord200''), world0)"
proof (rule remove_unparsable_unchanged)
  show "parseTarget (bots demoEnv) ''discord200'' = None"
    by (simp add: scenario_defs code_defs)
qed

section \<open>Properties of the correlation store\<close>

lemma ttl_pos: "0 < ttl cfg"
  by (simp add: ttl_def hour_def split: option.splits)

lemma hostDelay_pos: "0 < hostDelay d"
  by (simp add: hostDelay_def)

text \<open>The delay in terms of the configuration.\<close>

lemma hostDelay_ttl:
  "hostDelay (ttl cfg) =
     (case replyTimeout cfg of
        None \<Rightarrow> 3600000
      | Some n \<Rightarrow> if n = 0 then 3600000 else if 2147483647 < n then 1 else n)"
  by (simp add: hostDelay_def ttl_def hour_def split: option.splits)

lemma fired_lookup:
  "fold (\<lambda>(due, k) own. if due \<le> t then dictDelete k own else own) ts m key
     = (if \<exists>due. (due, key) \<in> set ts \<and> due \<le> t then None else m key)"
  by (induction ts arbitrary: m) (auto simp: dictDelete_def split: if_splits)

lemma relayMap_advance:
  "relayMap (advance t w) key
     = (if \<exists>due. (due, key) \<in> set (timers w) \<and> due \<le> t then None else relayMap w key)"
  by (simp add: advance_def fired_lookup)

lemma timers_advance: "set (timers (advance t w)) = {(due, k) \<in> set (timers w). \<not> due \<le> t}"
  by (auto simp: advance_def)

lemma clock_advance: "clock (advance t w) = max (clock w) t"
  by (simp add: advance_def)

lemma tracked_register:
  assumes plain: "key \<noteq> ''__proto__''"
    and fresh: "\<forall>(due, k) \<in> set (timers w). k \<noteq> key"
  shows "tracked (clock w) (hostDelay (ttl cfg)) key entry (register cfg entry key w)"
  using plain fresh hostDelay_pos [of "ttl cfg"]
  by (auto simp: tracked_def register_def dictSet_def)

lemma tracked_elapse:
  assumes "tracked t0 T key entry w"
  shows "tracked t0 T key entry (advance (clock w + d) w)"
proof (cases "clock w < t0 + T")
  case False
  with assms show ?thesis
    by (auto simp: tracked_def relayMap_advance timers_advance clock_advance)
next
  case live: True
  show ?thesis
  proof (cases "clock w + d < t0 + T")
    case True
    with assms live show ?thesis
      by (auto simp: tracked_def relayMap_advance timers_advance clock_advance)
  next
    case False
    with assms live show ?thesis
      by (fastforce simp: tracked_def relayMap_advance timers_advance clock_advance)
  qed
qed

lemma tracked_put:
  assumes "tracked t0 T key entry w" and "k' \<noteq> key"
  shows "tracked t0 T key entry (register cfg e' k' w)"
  using assms by (auto simp: tracked_def register_def dictSet_def)

lemma tracked_step:
  assumes "tracked t0 T key entry w" and "\<not> puts_key key op"
  shows "tracked t0 T key entry (store_step cfg op w)"
  using assms by (cases op) (auto intro: tracked_elapse tracked_put)

lemma tracked_run:
  assumes "tracked t0 T key entry w" and "\<forall>op \<in> set ops. \<not> puts_key key op"
  shows "tracked t0 T key entry (store_run cfg ops w)"
  using assms unfolding store_run_def
  by (induction ops arbitrary: w) (auto intro: tracked_step)

text \<open>
  Claim C5, as the code has it. The time to live is the delay that the timer really
  gets, \<open>hostDelay (ttl cfg)\<close>: the configured \<open>replyTimeout\<close> when that is between 1
  and 2147483647, one hour when it is unset or zero, and 1 when it is larger. For a key
  other than \<^verbatim>\<open>__proto__\<close>, registered when no callback for it is pending and not
  registered again afterwards: whatever else is registered and however time passes, the
  read of the key yields the entry as long as less than that delay has elapsed since
  the registration; from then on the entry is gone, and the read yields what the object
  inherits under that name, which is \<^verbatim>\<open>undefined\<close> for every key that is neither a field
  name of an entry nor a member of \<^verbatim>\<open>Object.prototype\<close>. The read \<open>dictGet w key\<close>
  takes the world and returns no new one. Time is the logical clock of the model: a
  callback runs when the clock reaches its due time.
\<close>

theorem relay_entry_lifetime:
  assumes plain: "key \<noteq> ''__proto__''"
    and fresh: "\<forall>(due, k) \<in> set (timers w). k \<noteq> key"
    and others: "\<forall>op \<in> set ops. \<not> puts_key key op"
  shows "dictGet (store_run cfg ops (register cfg entry key w)) key
           = (if clock (store_run cfg ops (register cfg entry key w)) - clock w
                   < hostDelay (ttl cfg)
              then EntryV entry
              else inheritedGet (store_run cfg ops (register cfg entry key w)) key)
       \<and> (key \<notin> set entryKeys \<and> key \<notin> set objectPrototypeKeys \<longrightarrow>
            dictGet (store_run cfg ops (register cfg entry key w)) key
              = (if clock (store_run cfg ops (register cfg entry key w)) - clock w
                      < hostDelay (ttl cfg)
                 then EntryV entry else Undefined))"
proof -
  let ?w = "store_run cfg ops (register cfg entry key w)"
  have "tracked (clock w) (hostDelay (ttl cfg)) key entry ?w"
    using tracked_register [OF plain fresh] others by (rule tracked_run)
  then have own: "relayMap ?w key
      = (if clock ?w - clock w < hostDelay (ttl cfg) then Some entry else None)"
    by (auto simp: tracked_def split: if_splits)
  have a: "dictGet ?w key
      = (if clock ?w - clock w < hostDelay (ttl cfg) then EntryV entry else inheritedGet ?w key)"
    using plain by (simp add: dictGet_def own)
  have "inheritedGet ?w key = Undefined"
    if "key \<notin> set entryKeys \<and> key \<notin> set objectPrototypeKeys"
    using that plain by (simp add: inheritedGet_plain)
  with a show ?thesis by simp
qed

text \<open>
  The theorem with \<open>replyTimeout = 1000\<close>: the entry registered at time 0 is there at
  time 999 and gone at time 1000, another key being registered in between.
\<close>

theorem relay_entry_lifetime_witness:
  "dictGet (store_run dbConfig [Elapse 999] (register dbConfig origin100 ''M'' world0)) ''M''
     = EntryV origin100
   \<and> dictGet (store_run dbConfig [Elapse 500, Put ''N'' origin100, Elapse 500]
        (register dbConfig origin100 ''M'' world0)) ''M'' = Undefined"
proof -
  have plain: "''M'' \<noteq> ''__proto__''"
    by simp
  have fresh: "\<forall>(due, k) \<in> set (timers world0). k \<noteq> ''M''"
    by (simp add: world0_def)
  have o1: "\<forall>op \<in> set [Elapse 999]. \<not> puts_key ''M'' op"
    by simp
  have o2: "\<forall>op \<in> set [Elapse 500, Put ''N'' origin100, Elapse 500]. \<not> puts_key ''M'' op"
    by simp
  have c1: "clock (store_run dbConfig [Elapse 999] (register dbConfig origin100 ''M'' world0)) = 999"
    by (simp add: store_run_def register_def dictSet_def advance_def world0_def)
  have c2: "clock (store_run dbConfig [Elapse 500, Put ''N'' origin100, Elapse 500]
        (register dbConfig origin100 ''M'' world0)) = 1000"
    by (simp add: store_run_def register_def dictSet_def advance_def world0_def)
  have t: "hostDelay (ttl dbConfig) = 1000" "clock world0 = 0"
    by (simp_all add: hostDelay_def ttl_def dbConfig_def world0_def)
  have k: "''M'' \<notin> set entryKeys \<and> ''M'' \<notin> set objectPrototypeKeys"
    by (simp add: entryKeys_def objectPrototypeKeys_def)
  have "dictGet (store_run dbConfig [Elapse 999] (register dbConfig origin100 ''M'' world0)) ''M''
      = (if clock (store_run dbConfig [Elapse 999] (register dbConfig origin100 ''M'' world0))
              - clock world0 < hostDelay (ttl dbConfig)
         then EntryV origin100 else Undefined)"
    using relay_entry_lifetime [OF plain fresh o1, of dbConfig origin100] k by blast
  then have a: "dictGet (store_run dbConfig [Elapse 999]
      (register dbConfig origin100 ''M'' world0)) ''M'' = EntryV origin100"
    by (simp add: c1 t)
  have "dictGet (store_run dbConfig [Elapse 500, Put ''N'' origin100, Elapse 500]
        (register dbConfig origin100 ''M'' world0)) ''M''
      = (if clock (store_run dbConfig [Elapse 500, Put ''N'' origin100, Elapse 500]
                (register dbConfig origin100 ''M'' world0))
              - clock world0 < hostDelay (ttl dbConfig)
         then EntryV origin100 else Undefined)"
    using relay_entry_lifetime [OF plain fresh o2, of dbConfig origin100] k by blast
  then have b: "dictGet (store_run dbConfig [Elapse 500, Put ''N'' origin100, Elapse 500]
        (register dbConfig origin100 ''M'' world0)) ''M'' = Undefined"
    by (simp add: c2 t)
  from a b show ?thesis by blast
qed

text \<open>
  Claim C5 as stated fails in several ways.
  \<^item> With \<open>replyTimeout = 1000\<close>, a key registered at time 0 and again at time 600 is
    absent at time 1200, only 600 after its second registration: the callback of the
    first registration was never cancelled and deleted the second entry at time 1000.
  \<^item> With \<open>replyTimeout = 0\<close> the time to live is one hour, and the entry is still there
    5 milliseconds after its registration.
  \<^item> With a \<open>replyTimeout\<close> of thirty days the timer gets the delay 1, and the entry is
    gone 50 milliseconds after its registration.
  \<^item> An entry registered under \<^verbatim>\<open>__proto__\<close> becomes the prototype, which the callback
    does not remove: it is still read at time 2000 with \<open>replyTimeout = 1000\<close>.
  \<^item> An entry registered under \<open>constructor\<close> is removed in time, but the read then
    yields the inherited function and not \<^verbatim>\<open>undefined\<close>.
\<close>

theorem relay_entry_lifetime_counterexample:
  "hostDelay (ttl dbConfig) = 1000
   \<and> clock (store_run dbConfig [Put ''M'' origin100, Elapse 600] world0) = 600
   \<and> clock (store_run dbConfig
        [Put ''M'' origin100, Elapse 600, Put ''M'' origin100, Elapse 600] world0) = 1200
   \<and> dictGet (store_run dbConfig
        [Put ''M'' origin100, Elapse 600, Put ''M'' origin100, Elapse 600] world0) ''M''
       = Undefined
   \<and> replyTimeout zeroConfig = Some 0
   \<and> dictGet (store_run zeroConfig [Put ''M'' origin100, Elapse 5] world0) ''M''
       = EntryV origin100
   \<and> replyTimeout monthConfig = Some 2592000000
   \<and> dictGet (store_run monthConfig [Put ''M'' origin100, Elapse 50] world0) ''M'' = Undefined
   \<and> dictGet (store_run dbConfig [Put ''__proto__'' origin100, Elapse 2000] world0)
        ''__proto__'' = EntryV origin100
   \<and> dictGet (store_run dbConfig [Put ''constructor'' origin100, Elapse 2000] world0)
        ''constructor'' = ObjectV"
  by (simp add: store_run_def register_def advance_def ttl_def hour_def zeroConfig_def
      monthConfig_def dbConfig_def world0_def dictGet_def dictSet_def dictDelete_def
      inheritedGet_def entryField_def hostDelay_def objectPrototypeKeys_def)

section \<open>Properties of the mention rewriting\<close>

lemma mention_resolved:
  "attrs ''id'' = Some i \<Longrightarrow> i \<noteq> [] \<Longrightarrow> dict i = Some n \<Longrightarrow>
     transformAt dict (Element ''at'' attrs children) = Text (''@'' @ n)"
  by simp

lemma mention_without_id:
  "attrs ''id'' = None \<or> attrs ''id'' = Some [] \<Longrightarrow>
     transformAt dict (Element ''at'' attrs children)
       = Element ''at'' attrs (map (transformAt dict) children)"
  by auto

lemma mention_unresolved:
  "attrs ''id'' = Some i \<Longrightarrow> i \<noteq> [] \<Longrightarrow> dict i = None \<Longrightarrow>
     transformAt dict (Element ''at'' attrs children) = Text ''@undefined''"
  by simp

text \<open>
  Claim C9 at the message that mentions the member 42 (Alice), the unknown id 999 and
  everyone, posted in guild G1. The mention of 42 becomes the text \<open>@Alice\<close> and the
  mention without id is kept; the mention of 999 is not kept as a mention: it becomes
  the text \<open>@undefined\<close>, and that is what is sent.
\<close>

theorem unresolved_mention_becomes_undefined:
  "rewriteMentions demoEnv mentionSession
     = Inr [Text ''hey '', Text ''@Alice'', Text ''@undefined'',
            Element ''at'' [''type'' \<mapsto> ''all''] []]
   \<and> map sent_content
       (outbox (sendRelay demoEnv fileConfig mentionSession (target ''discord'' ''200'' ''B1'')
          world0))
     = [[Text ''bob: '', Text ''hey '', Text ''@Alice'', Text ''@undefined'',
         Element ''at'' [''type'' \<mapsto> ''all''] []]]"
  by (simp add: outbox_sendRelay) (simp add: scenario_defs code_defs)

end
